theory Spec2Isabelle
  imports Main "HOL-Library.Word" "HOL-Library.Char_ord" "HOL-Library.List_Lexorder"
    "HOL-Library.State_Monad"
begin

section \<open>The single value chart resource of the SignalFx provider\<close>

text \<open>
  This theory embeds \<^verbatim>\<open>signalfx/resource_signalfx_single_value_chart.go\<close>: the
  construction of the JSON payload of a single value chart
  (\<^verbatim>\<open>getPayloadSingleValueChart\<close>, \<^verbatim>\<open>getSingleValueChartOptions\<close>) and the
  create and update operations that submit it.
\<close>

subsection \<open>Values\<close>

text \<open>
  Go's \<^verbatim>\<open>int\<close> on a 64-bit target: multiplication wraps around, and the value is read
  as two's complement (\<open>sint\<close>).
\<close>

type_synonym go_int = "64 word"

text \<open>
  The values the payload is made of (\<^verbatim>\<open>interface{}\<close> restricted to what the file stores:
  strings, ints, bools, slices and \<^verbatim>\<open>map[string]interface{}\<close>). A Go map has no order of
  its own and \<^verbatim>\<open>json.Marshal\<close> writes the keys of a map sorted; an object is kept here as
  an association list sorted by key, so that two objects are equal exactly when they hold
  the same keys with the same values, whatever the order of the assignments that built them.
\<close>

datatype json =
    JString string
  | JInt go_int
  | JBool bool
  | JArray "json list"
  | JObject "(string \<times> json) list"

type_synonym go_map = "(string \<times> json) list"

text \<open>\<^verbatim>\<open>m[k] = v\<close>: replaces the value of an existing key, adds the key otherwise.\<close>

fun map_set :: "string \<Rightarrow> json \<Rightarrow> go_map \<Rightarrow> go_map" where
  "map_set k v [] = [(k, v)]"
| "map_set k v ((k', v') # m) =
     (if k = k' then (k, v) # m
      else if k < k' then (k, v) # (k', v') # m
      else (k', v') # map_set k v m)"

text \<open>\<^verbatim>\<open>v, ok := m[k]\<close>: \<open>None\<close> when the key is absent.\<close>

definition lookup :: "go_map \<Rightarrow> string \<Rightarrow> json option" where
  "lookup m k = map_of m k"

text \<open>A map literal, its entries assigned from left to right.\<close>

definition map_lit :: "(string \<times> json) list \<Rightarrow> go_map" where
  "map_lit kvs = foldl (\<lambda>m kv. map_set (fst kv) (snd kv) m) [] kvs"

text \<open>Reading a payload along a path of keys; \<open>None\<close> when a key on the path is absent.\<close>

fun json_get :: "json \<Rightarrow> string \<Rightarrow> json option" where
  "json_get (JObject m) k = lookup m k"
| "json_get _ k = None"

fun json_path :: "json \<Rightarrow> string list \<Rightarrow> json option" where
  "json_path j [] = Some j"
| "json_path j (k # ks) = (case json_get j k of None \<Rightarrow> None | Some j' \<Rightarrow> json_path j' ks)"

subsection \<open>The resource data\<close>

text \<open>
  \<^verbatim>\<open>schema.ResourceData\<close> for the schema of \<^verbatim>\<open>singleValueChartResource\<close>: one component
  per field, \<open>None\<close> when the configuration does not set the field. The entries of the
  two nested blocks are of the types \<open>'cs\<close> (a \<^verbatim>\<open>color_scale\<close> block) and \<open>'vz\<close> (a
  \<^verbatim>\<open>viz_options\<close> block); a \<^verbatim>\<open>schema.Set\<close> is read through its \<^verbatim>\<open>List()\<close>. \<open>rd_id\<close> is
  what \<^verbatim>\<open>d.Id()\<close> returns, the empty string as long as no identifier is assigned; \<open>rd_url\<close>
  is the computed field \<^verbatim>\<open>url\<close>.
\<close>

record ('cs, 'vz) ResourceData =
  rd_id :: string
  name :: "string option"
  program_text :: "string option"
  description :: "string option"
  unit_prefix :: "string option"
  color_by :: "string option"
  max_delay :: "go_int option"
  refresh_interval :: "go_int option"
  max_precision :: "go_int option"
  is_timestamp_hidden :: "bool option"
  show_spark_line :: "bool option"
  secondary_visualization :: "string option"
  color_scale :: "'cs list"
  viz_options :: "'vz list"
  rd_url :: "string option"

text \<open>
  \<^verbatim>\<open>d.Get(key)\<close> of the Terraform schema helper returns the value of the field, and the
  zero value of its type when the field is not set (the schema's \<^verbatim>\<open>Default\<close> where it
  declares one: \<^verbatim>\<open>false\<close> for both boolean fields read here).
\<close>

definition Get_string :: "string option \<Rightarrow> string" where
  "Get_string f = (case f of None \<Rightarrow> [] | Some v \<Rightarrow> v)"

definition Get_int :: "go_int option \<Rightarrow> go_int" where
  "Get_int f = (case f of None \<Rightarrow> 0 | Some v \<Rightarrow> v)"

definition Get_bool :: "bool option \<Rightarrow> bool" where
  "Get_bool f = (case f of None \<Rightarrow> False | Some v \<Rightarrow> v)"

text \<open>
  \<^verbatim>\<open>d.GetOk(key)\<close> returns the value and whether the field has been set to a value other
  than the zero value of its type (the helper's documentation: ``whether or not the key
  has been set to a non-zero value''): a field set to \<^verbatim>\<open>""\<close> or \<^verbatim>\<open>0\<close> gives
  \<^verbatim>\<open>ok == false\<close>, as an unset one does.
\<close>

definition GetOk_string :: "string option \<Rightarrow> string \<times> bool" where
  "GetOk_string f = (Get_string f, f \<noteq> None \<and> Get_string f \<noteq> [])"

definition GetOk_int :: "go_int option \<Rightarrow> go_int \<times> bool" where
  "GetOk_int f = (Get_int f, f \<noteq> None \<and> Get_int f \<noteq> 0)"

subsection \<open>Payload construction\<close>

text \<open>
  Modelled from the spec: \<^verbatim>\<open>getColorScaleOptions\<close> is called by the file and defined
  elsewhere in the repository. For a nested block the specification has the payload
  construction ``map every instance's sub-fields into its own payload map, collect into a
  list'': one payload entry for each \<^verbatim>\<open>color_scale\<close> block. How one block is mapped
  (\<open>entry\<close>) is left open.
\<close>

definition getColorScaleOptions :: "('cs \<Rightarrow> json) \<Rightarrow> ('cs, 'vz) ResourceData \<Rightarrow> json list" where
  "getColorScaleOptions entry d = map entry (color_scale d)"

text \<open>
  Modelled from the spec: \<^verbatim>\<open>getPerSignalVizOptions\<close> is called by the file and defined
  elsewhere in the repository; by the same sentence of the specification it gives one
  payload entry for each \<^verbatim>\<open>viz_options\<close> block.
\<close>

definition getPerSignalVizOptions :: "('vz \<Rightarrow> json) \<Rightarrow> ('cs, 'vz) ResourceData \<Rightarrow> json list" where
  "getPerSignalVizOptions entry d = map entry (viz_options d)"

definition getSingleValueChartOptions :: "('cs \<Rightarrow> json) \<Rightarrow> ('cs, 'vz) ResourceData \<Rightarrow> go_map" where
  "getSingleValueChartOptions csEntry d =
    (let viz = [];
         viz = map_set ''type'' (JString ''SingleValue'') viz;
         viz = (case GetOk_string (unit_prefix d) of (val, ok) \<Rightarrow>
                  if ok then map_set ''unitPrefix'' (JString val) viz else viz);
         viz = (case GetOk_string (color_by d) of (val, ok) \<Rightarrow>
                  if ok then
                    (if val = ''Scale'' then
                       (let colorScaleOptions = getColorScaleOptions csEntry d in
                        if length colorScaleOptions > 0
                        then map_set ''colorScale2'' (JArray colorScaleOptions)
                               (map_set ''colorBy'' (JString ''Scale'') viz)
                        else viz)
                     else map_set ''colorBy'' (JString val) viz)
                  else viz);
         programOptions = [];
         viz = (case GetOk_int (max_delay d) of (val, ok) \<Rightarrow>
                  if ok then
                    (let programOptions = map_set ''maxDelay'' (JInt (val * 1000)) programOptions
                     in map_set ''programOptions'' (JObject programOptions) viz)
                  else viz);
         viz = (case GetOk_int (refresh_interval d) of (refreshInterval, ok) \<Rightarrow>
                  if ok then map_set ''refreshInterval'' (JInt (refreshInterval * 1000)) viz
                  else viz);
         viz = (case GetOk_int (max_precision d) of (maxPrecision, ok) \<Rightarrow>
                  if ok then map_set ''maximumPrecision'' (JInt maxPrecision) viz else viz);
         viz = (case GetOk_string (secondary_visualization d) of (val, ok) \<Rightarrow>
                  if ok then
                    (let secondaryVisualization = val in
                     if secondaryVisualization \<noteq> ''''
                     then map_set ''secondaryVisualization'' (JString secondaryVisualization) viz
                     else viz)
                  else viz);
         viz = map_set ''timestampHidden'' (JBool (Get_bool (is_timestamp_hidden d))) viz;
         viz = map_set ''showSparkLine'' (JBool (Get_bool (show_spark_line d))) viz
     in viz)"

text \<open>
  The map that \<^verbatim>\<open>getPayloadSingleValueChart\<close> builds and hands to \<^verbatim>\<open>json.Marshal\<close>
  (the body of the function up to its \<^verbatim>\<open>return\<close>).
\<close>

definition payloadSingleValueChart ::
    "('cs \<Rightarrow> json) \<Rightarrow> ('vz \<Rightarrow> json) \<Rightarrow> ('cs, 'vz) ResourceData \<Rightarrow> json" where
  "payloadSingleValueChart csEntry vzEntry d =
    (let payload = map_lit
           [(''name'', JString (Get_string (name d))),
            (''description'', JString (Get_string (description d))),
            (''programText'', JString (Get_string (program_text d)))];
         viz = getSingleValueChartOptions csEntry d;
         viz = (let vizOptions = getPerSignalVizOptions vzEntry d in
                if length vizOptions > 0
                then map_set ''publishLabelOptions'' (JArray vizOptions) viz else viz);
         payload = (if length viz > 0 then map_set ''options'' (JObject viz) payload else payload)
     in JObject payload)"

text \<open>
  An \<^verbatim>\<open>error\<close> with the message its \<^verbatim>\<open>Error()\<close> method returns. \<^verbatim>\<open>json.Marshal\<close> belongs to
  Go's standard library: it is a parameter, a function from the value to the bytes or to
  an error.
\<close>

datatype error = Error (error_msg: string)

type_synonym marshal = "json \<Rightarrow> error + string"

definition getPayloadSingleValueChart ::
    "marshal \<Rightarrow> ('cs \<Rightarrow> json) \<Rightarrow> ('vz \<Rightarrow> json) \<Rightarrow> ('cs, 'vz) ResourceData \<Rightarrow> error + string" where
  "getPayloadSingleValueChart json_Marshal csEntry vzEntry d =
     json_Marshal (payloadSingleValueChart csEntry vzEntry d)"

subsection \<open>Create and update\<close>

text \<open>\<^verbatim>\<open>signalfxConfig\<close>, the provider's configuration (\<^verbatim>\<open>meta\<close>).\<close>

record signalfxConfig =
  APIURL :: string
  AuthToken :: string
  CustomAppURL :: string

text \<open>
  What the file uses and does not define: the constants \<^verbatim>\<open>CHART_API_PATH\<close> and
  \<^verbatim>\<open>CHART_APP_PATH\<close>, the helpers \<^verbatim>\<open>buildURL\<close> and \<^verbatim>\<open>buildAppURL\<close> (each returns a
  string or an error), \<^verbatim>\<open>json.Marshal\<close>, the mapping of one nested block instance, and
  the outbound HTTP collaborator, whose interface the specification gives as
  \<^verbatim>\<open>create(url, authToken, payload) -> (identifier, error)\<close> and
  \<^verbatim>\<open>update(url, authToken, payload) -> error\<close>. They are parameters.
\<close>

record ('cs, 'vz) env =
  json_Marshal :: marshal
  colorScaleEntry :: "'cs \<Rightarrow> json"
  vizOptionsEntry :: "'vz \<Rightarrow> json"
  CHART_API_PATH :: string
  CHART_APP_PATH :: string
  buildURL :: "string \<Rightarrow> string \<Rightarrow> (string \<times> string) list \<Rightarrow> error + string"
  buildAppURL :: "string \<Rightarrow> string \<Rightarrow> error + string"
  http_create :: "string \<Rightarrow> string \<Rightarrow> string \<Rightarrow> error + string"
  http_update :: "string \<Rightarrow> string \<Rightarrow> string \<Rightarrow> error option"

text \<open>
  The state the operations act on: the resource data \<^verbatim>\<open>d\<close>, which they change in place,
  and the requests submitted to the remote API so far, oldest first.
\<close>

datatype operation = OpCreate | OpUpdate

record request =
  req_op :: operation
  req_url :: string
  req_token :: string
  req_payload :: string

record ('cs, 'vz) world =
  res :: "('cs, 'vz) ResourceData"
  sent :: "request list"

text \<open>
  Modelled from the spec: \<^verbatim>\<open>resourceCreate\<close> is a shared helper defined elsewhere in the
  repository. By the specification, create submits the payload and ``on success
  transition[s] to Managed with identifier [\<dots>] set; on failure remain[s] Unmanaged,
  surface[s] error, no partial state persisted''. (The file itself reads \<^verbatim>\<open>d.Id()\<close> right
  after a successful \<^verbatim>\<open>resourceCreate\<close>.) The remote-supplied timestamp
  \<^verbatim>\<open>last_updated\<close> is not part of the model.
\<close>

definition resourceCreate ::
    "('cs, 'vz) env \<Rightarrow> string \<Rightarrow> string \<Rightarrow> string \<Rightarrow> ('cs, 'vz) world
      \<Rightarrow> ('cs, 'vz) world \<times> error option" where
  "resourceCreate env url sfxToken payload w =
    (let w = w\<lparr>sent := sent w @
               [\<lparr>req_op = OpCreate, req_url = url, req_token = sfxToken, req_payload = payload\<rparr>]\<rparr>
     in case http_create env url sfxToken payload of
          Inl err \<Rightarrow> (w, Some err)
        | Inr ident \<Rightarrow> (w\<lparr>res := (res w)\<lparr>rd_id := ident\<rparr>\<rparr>, None))"

text \<open>
  Modelled from the spec: \<^verbatim>\<open>resourceUpdate\<close> is a shared helper defined elsewhere in the
  repository. By the specification, update submits the payload and returns the
  collaborator's error.
\<close>

definition resourceUpdate ::
    "('cs, 'vz) env \<Rightarrow> string \<Rightarrow> string \<Rightarrow> string \<Rightarrow> ('cs, 'vz) world
      \<Rightarrow> ('cs, 'vz) world \<times> error option" where
  "resourceUpdate env url sfxToken payload w =
    (let w = w\<lparr>sent := sent w @
               [\<lparr>req_op = OpUpdate, req_url = url, req_token = sfxToken, req_payload = payload\<rparr>]\<rparr>
     in (w, http_update env url sfxToken payload))"

text \<open>
  The operations return the state they leave and the \<^verbatim>\<open>error\<close> they return (\<open>None\<close> for
  \<^verbatim>\<open>nil\<close>).
\<close>

definition singlevaluechartCreate ::
    "('cs, 'vz) env \<Rightarrow> signalfxConfig \<Rightarrow> ('cs, 'vz) world \<Rightarrow> ('cs, 'vz) world \<times> error option" where
  "singlevaluechartCreate env config w =
    (case getPayloadSingleValueChart (json_Marshal env) (colorScaleEntry env)
            (vizOptionsEntry env) (res w) of
       Inl err \<Rightarrow> (w, Some (Error (''Failed creating json payload: '' @ error_msg err)))
     | Inr payload \<Rightarrow>
        (case buildURL env (APIURL config) (CHART_API_PATH env) [] of
           Inl err \<Rightarrow>
             (w, Some (Error (''[DEBUG] SignalFx: Error constructing API URL: '' @ error_msg err)))
         | Inr url \<Rightarrow>
            (case resourceCreate env url (AuthToken config) payload w of
               (w, Some err) \<Rightarrow> (w, Some err)
             | (w, None) \<Rightarrow>
                (case buildAppURL env (CustomAppURL config)
                        (CHART_APP_PATH env @ rd_id (res w)) of
                   Inl err \<Rightarrow> (w, Some err)
                 | Inr appURL \<Rightarrow> (w\<lparr>res := (res w)\<lparr>rd_url := Some appURL\<rparr>\<rparr>, None)))))"

definition singlevaluechartUpdate ::
    "('cs, 'vz) env \<Rightarrow> signalfxConfig \<Rightarrow> ('cs, 'vz) world \<Rightarrow> ('cs, 'vz) world \<times> error option" where
  "singlevaluechartUpdate env config w =
    (case getPayloadSingleValueChart (json_Marshal env) (colorScaleEntry env)
            (vizOptionsEntry env) (res w) of
       Inl err \<Rightarrow> (w, Some (Error (''Failed creating json payload: '' @ error_msg err)))
     | Inr payload \<Rightarrow>
        (let path = CHART_API_PATH env @ ''/'' @ rd_id (res w) in
         case buildURL env (APIURL config) path [] of
           Inl err \<Rightarrow>
             (w, Some (Error (''[DEBUG] SignalFx: Error constructing API URL: '' @ error_msg err)))
         | Inr url \<Rightarrow> resourceUpdate env url (AuthToken config) payload w))"

subsection \<open>Payload construction as operations on the state\<close>

text \<open>
  \<^verbatim>\<open>d\<close> is a pointer: a function that is handed \<^verbatim>\<open>d\<close> could write to it, and the
  operations above do. The two functions of the payload are embedded once more, with every
  call they make on \<^verbatim>\<open>d\<close> as an operation of the state monad on the state of the
  operations, so that what they leave unchanged can be stated. \<^verbatim>\<open>d.Get\<close> and \<^verbatim>\<open>d.GetOk\<close>
  read the field and leave the state as it is.
\<close>

definition d_Get_string ::
    "(('cs, 'vz) ResourceData \<Rightarrow> string option) \<Rightarrow> (('cs, 'vz) world, string) state" where
  "d_Get_string field = State (\<lambda>w. (Get_string (field (res w)), w))"

definition d_Get_bool ::
    "(('cs, 'vz) ResourceData \<Rightarrow> bool option) \<Rightarrow> (('cs, 'vz) world, bool) state" where
  "d_Get_bool field = State (\<lambda>w. (Get_bool (field (res w)), w))"

definition d_GetOk_string ::
    "(('cs, 'vz) ResourceData \<Rightarrow> string option)
      \<Rightarrow> (('cs, 'vz) world, string \<times> bool) state" where
  "d_GetOk_string field = State (\<lambda>w. (GetOk_string (field (res w)), w))"

definition d_GetOk_int ::
    "(('cs, 'vz) ResourceData \<Rightarrow> go_int option)
      \<Rightarrow> (('cs, 'vz) world, go_int \<times> bool) state" where
  "d_GetOk_int field = State (\<lambda>w. (GetOk_int (field (res w)), w))"

text \<open>
  Modelled from the spec: \<^verbatim>\<open>getColorScaleOptions\<close>, called on \<^verbatim>\<open>d\<close>; the specification has
  payload construction without side effects, so the helper reads the blocks and leaves
  the state as it is.
\<close>

definition getColorScaleOptions_st ::
    "('cs \<Rightarrow> json) \<Rightarrow> (('cs, 'vz) world, json list) state" where
  "getColorScaleOptions_st entry = State (\<lambda>w. (getColorScaleOptions entry (res w), w))"

text \<open>
  Modelled from the spec: \<^verbatim>\<open>getPerSignalVizOptions\<close>, called on \<^verbatim>\<open>d\<close>, in the same way.
\<close>

definition getPerSignalVizOptions_st ::
    "('vz \<Rightarrow> json) \<Rightarrow> (('cs, 'vz) world, json list) state" where
  "getPerSignalVizOptions_st entry = State (\<lambda>w. (getPerSignalVizOptions entry (res w), w))"

definition getSingleValueChartOptions_st ::
    "('cs \<Rightarrow> json) \<Rightarrow> (('cs, 'vz) world, go_map) state" where
  "getSingleValueChartOptions_st csEntry = do {
     let viz = [];
     let viz = map_set ''type'' (JString ''SingleValue'') viz;
     (val, ok) \<leftarrow> d_GetOk_string unit_prefix;
     let viz = (if ok then map_set ''unitPrefix'' (JString val) viz else viz);
     (val, ok) \<leftarrow> d_GetOk_string color_by;
     viz \<leftarrow> (if ok then
               (if val = ''Scale'' then do {
                  colorScaleOptions \<leftarrow> getColorScaleOptions_st csEntry;
                  State_Monad.return
                    (if length colorScaleOptions > 0
                     then map_set ''colorScale2'' (JArray colorScaleOptions)
                            (map_set ''colorBy'' (JString ''Scale'') viz)
                     else viz)
                }
                else State_Monad.return (map_set ''colorBy'' (JString val) viz))
             else State_Monad.return viz);
     let programOptions = [];
     (val, ok) \<leftarrow> d_GetOk_int max_delay;
     let viz = (if ok then
                  (let programOptions = map_set ''maxDelay'' (JInt (val * 1000)) programOptions
                   in map_set ''programOptions'' (JObject programOptions) viz)
                else viz);
     (refreshInterval, ok) \<leftarrow> d_GetOk_int refresh_interval;
     let viz = (if ok then map_set ''refreshInterval'' (JInt (refreshInterval * 1000)) viz
                else viz);
     (maxPrecision, ok) \<leftarrow> d_GetOk_int max_precision;
     let viz = (if ok then map_set ''maximumPrecision'' (JInt maxPrecision) viz else viz);
     (val, ok) \<leftarrow> d_GetOk_string secondary_visualization;
     let viz = (if ok then
                  (let secondaryVisualization = val in
                   if secondaryVisualization \<noteq> ''''
                   then map_set ''secondaryVisualization'' (JString secondaryVisualization) viz
                   else viz)
                else viz);
     timestampHidden \<leftarrow> d_Get_bool is_timestamp_hidden;
     let viz = map_set ''timestampHidden'' (JBool timestampHidden) viz;
     showSparkLine \<leftarrow> d_Get_bool show_spark_line;
     let viz = map_set ''showSparkLine'' (JBool showSparkLine) viz;
     State_Monad.return viz
   }"

definition getPayloadSingleValueChart_st ::
    "marshal \<Rightarrow> ('cs \<Rightarrow> json) \<Rightarrow> ('vz \<Rightarrow> json)
      \<Rightarrow> (('cs, 'vz) world, error + string) state" where
  "getPayloadSingleValueChart_st marshal csEntry vzEntry = do {
     nameText \<leftarrow> d_Get_string name;
     descriptionText \<leftarrow> d_Get_string description;
     programText \<leftarrow> d_Get_string program_text;
     let payload = map_lit
           [(''name'', JString nameText),
            (''description'', JString descriptionText),
            (''programText'', JString programText)];
     viz \<leftarrow> getSingleValueChartOptions_st csEntry;
     vizOptions \<leftarrow> getPerSignalVizOptions_st vzEntry;
     let viz = (if length vizOptions > 0
                then map_set ''publishLabelOptions'' (JArray vizOptions) viz else viz);
     let payload = (if length viz > 0 then map_set ''options'' (JObject viz) payload
                    else payload);
     State_Monad.return (marshal (JObject payload))
   }"

text \<open>The payload object of the resource data of a state, under the collaborators \<open>env\<close>.\<close>

abbreviation payload_of :: "('cs, 'vz) env \<Rightarrow> ('cs, 'vz) world \<Rightarrow> json" where
  "payload_of env w \<equiv>
     payloadSingleValueChart (colorScaleEntry env) (vizOptionsEntry env) (res w)"

subsection \<open>Guarded assignments\<close>

text \<open>
  \<^verbatim>\<open>if c { m[k] = v }\<close>, the shape of most statements of \<^verbatim>\<open>getSingleValueChartOptions\<close>;
  the lemma \<open>options_steps\<close> below rewrites the function into a sequence of them.
\<close>

definition set_if :: "bool \<Rightarrow> string \<Rightarrow> json \<Rightarrow> go_map \<Rightarrow> go_map" where
  "set_if c k v m = (if c then map_set k v m else m)"

subsection \<open>Concrete inputs\<close>

text \<open>The resource data of a configuration that sets no field, with no identifier.\<close>

definition unset :: "(unit, unit) ResourceData" where
  "unset = \<lparr>rd_id = [], name = None, program_text = None, description = None,
     unit_prefix = None, color_by = None, max_delay = None, refresh_interval = None,
     max_precision = None, is_timestamp_hidden = None, show_spark_line = None,
     secondary_visualization = None, color_scale = [], viz_options = [], rd_url = None\<rparr>"

text \<open>
  The end-to-end scenario of the specification:
  \<^verbatim>\<open>{name: "x", program_text: "data('cpu').publish()", max_delay: 5, show_spark_line: true}\<close>,
  and the payload the specification gives for it.
\<close>

definition scenario :: "(unit, unit) ResourceData" where
  "scenario = unset\<lparr>name := Some ''x'', program_text := Some ''data('cpu').publish()'',
     max_delay := Some 5, show_spark_line := Some True\<rparr>"

definition scenario_claimed :: json where
  "scenario_claimed = JObject (map_lit
     [(''name'', JString ''x''),
      (''programText'', JString ''data('cpu').publish()''),
      (''options'', JObject (map_lit
         [(''type'', JString ''SingleValue''),
          (''programOptions'', JObject (map_lit [(''maxDelay'', JInt 5000)])),
          (''timestampHidden'', JBool False),
          (''showSparkLine'', JBool True)]))])"

text \<open>A chart with only its required fields set.\<close>

definition minimal :: "(unit, unit) ResourceData" where
  "minimal = unset\<lparr>name := Some ''x'', program_text := Some ''data('cpu').publish()''\<rparr>"

text \<open>One way of mapping a nested block instance, for the concrete inputs.\<close>

definition entry0 :: "unit \<Rightarrow> json" where
  "entry0 u = JObject []"

text \<open>
  Collaborators for the concrete runs: the remote API answers every create with the
  identifier \<^verbatim>\<open>abc\<close>; in \<open>env_app_url_fails\<close> the construction of the application URL
  fails, in \<open>env_remote_fails\<close> the remote create call does.
\<close>

definition marshal0 :: marshal where
  "marshal0 j = Inr ''{}''"

definition buildURL0 :: "string \<Rightarrow> string \<Rightarrow> (string \<times> string) list \<Rightarrow> error + string" where
  "buildURL0 base path params = Inr (base @ path)"

definition buildAppURL0 :: "string \<Rightarrow> string \<Rightarrow> error + string" where
  "buildAppURL0 appURL fragment = Inr (appURL @ ''/#'' @ fragment)"

definition buildAppURL_fails :: "string \<Rightarrow> string \<Rightarrow> error + string" where
  "buildAppURL_fails appURL fragment = Inl (Error ''parse: invalid URL'')"

definition http_create0 :: "string \<Rightarrow> string \<Rightarrow> string \<Rightarrow> error + string" where
  "http_create0 u token payload = Inr ''abc''"

definition http_create_fails :: "string \<Rightarrow> string \<Rightarrow> string \<Rightarrow> error + string" where
  "http_create_fails u token payload = Inl (Error ''Bad status 500'')"

definition http_update0 :: "string \<Rightarrow> string \<Rightarrow> string \<Rightarrow> error option" where
  "http_update0 u token payload = None"

definition env_ok :: "(unit, unit) env" where
  "env_ok = \<lparr>json_Marshal = marshal0, colorScaleEntry = entry0, vizOptionsEntry = entry0,
     CHART_API_PATH = ''/v2/chart'', CHART_APP_PATH = ''/chart/'',
     buildURL = buildURL0, buildAppURL = buildAppURL0,
     http_create = http_create0, http_update = http_update0\<rparr>"

definition env_app_url_fails :: "(unit, unit) env" where
  "env_app_url_fails = env_ok\<lparr>buildAppURL := buildAppURL_fails\<rparr>"

definition env_remote_fails :: "(unit, unit) env" where
  "env_remote_fails = env_ok\<lparr>http_create := http_create_fails\<rparr>"

definition marshal_fails :: marshal where
  "marshal_fails j = Inl (Error ''json: unsupported value'')"

definition env_marshal_fails :: "(unit, unit) env" where
  "env_marshal_fails = env_ok\<lparr>json_Marshal := marshal_fails\<rparr>"

definition config0 :: signalfxConfig where
  "config0 = \<lparr>APIURL = ''https://api'', AuthToken = ''token'', CustomAppURL = ''https://app''\<rparr>"

definition world0 :: "(unit, unit) world" where
  "world0 = \<lparr>res = scenario, sent = []\<rparr>"

text \<open>Further configurations, each the chart \<open>minimal\<close> with a few fields set.\<close>

definition scale_without_entries :: "(unit, unit) ResourceData" where
  "scale_without_entries = minimal\<lparr>color_by := Some ''Scale''\<rparr>"

definition scale_with_entry :: "(unit, unit) ResourceData" where
  "scale_with_entry = minimal\<lparr>color_by := Some ''Scale'', color_scale := [()]\<rparr>"

definition by_dimension :: "(unit, unit) ResourceData" where
  "by_dimension = minimal\<lparr>color_by := Some ''Dimension''\<rparr>"

definition zero_delay :: "(unit, unit) ResourceData" where
  "zero_delay = minimal\<lparr>max_delay := Some 0, refresh_interval := Some 0\<rparr>"

definition timed :: "(unit, unit) ResourceData" where
  "timed = minimal\<lparr>max_delay := Some 5, refresh_interval := Some 5, max_precision := Some 5\<rparr>"

definition managed :: "(unit, unit) ResourceData" where
  "managed = scenario\<lparr>rd_id := ''abc'', rd_url := Some ''https://app/#/chart/abc''\<rparr>"

text \<open>
  A stand-in for \<^verbatim>\<open>json.Marshal\<close> in the concrete runs: compact output, the keys of an
  object in the order they are stored in (sorted), numbers in decimal, strings written
  without escapes (the strings of the runs need none).
\<close>

fun nat_text :: "nat \<Rightarrow> string" where
  "nat_text n = (if n < 10 then [''0123456789'' ! n]
                 else nat_text (n div 10) @ [''0123456789'' ! (n mod 10)])"

declare nat_text.simps [simp del]

definition int_text :: "int \<Rightarrow> string" where
  "int_text i = (if i < 0 then CHR ''-'' # nat_text (nat (- i)) else nat_text (nat i))"

definition quoted :: "string \<Rightarrow> string" where
  "quoted s = [CHR 0x22] @ s @ [CHR 0x22]"

fun commas :: "string list \<Rightarrow> string" where
  "commas [] = []"
| "commas [x] = x"
| "commas (x # y # zs) = x @ '','' @ commas (y # zs)"

primrec compact :: "json \<Rightarrow> string" where
  "compact (JString s) = quoted s"
| "compact (JInt n) = int_text (sint n)"
| "compact (JBool b) = (if b then ''true'' else ''false'')"
| "compact (JArray xs) = ''['' @ commas (map compact xs) @ '']''"
| "compact (JObject m) =
     ''{'' @ commas (map (\<lambda>kv. quoted (fst kv) @ '':'' @ snd kv) (map (map_prod id compact) m))
     @ ''}''"

definition marshal_compact :: marshal where
  "marshal_compact j = Inr (compact j)"

definition env_compact :: "(unit, unit) env" where
  "env_compact = env_ok\<lparr>json_Marshal := marshal_compact\<rparr>"

text \<open>
  A managed chart with every field set, in a state that already holds the request of its
  creation; and the same for the chart \<open>by_dimension\<close>.
\<close>

definition configured :: "(unit, unit) ResourceData" where
  "configured = \<lparr>rd_id = ''abc'', name = Some ''x'',
     program_text = Some ''data('cpu').publish()'', description = Some ''CPU load'',
     unit_prefix = Some ''Binary'', color_by = Some ''Scale'', max_delay = Some 5,
     refresh_interval = Some 60, max_precision = Some 3, is_timestamp_hidden = Some True,
     show_spark_line = Some True, secondary_visualization = Some ''Radial'',
     color_scale = [()], viz_options = [()], rd_url = Some ''https://app/#/chart/abc''\<rparr>"

definition request0 :: request where
  "request0 = \<lparr>req_op = OpCreate, req_url = ''https://api/v2/chart'', req_token = ''token'',
     req_payload = ''{}''\<rparr>"

definition world_configured :: "(unit, unit) world" where
  "world_configured = \<lparr>res = configured, sent = [request0]\<rparr>"

definition world_by_dimension :: "(unit, unit) world" where
  "world_by_dimension = \<lparr>res = by_dimension\<lparr>rd_id := ''abc''\<rparr>, sent = [request0]\<rparr>"

definition world_managed :: "(unit, unit) world" where
  "world_managed = \<lparr>res = managed, sent = [request0]\<rparr>"

text \<open>What the stand-in writes for the scenario and for these two charts.\<close>

definition scenario_text :: string where
  \<open>scenario_text =
     ''{"description":"","name":"x","options":{"programOptions":{"maxDelay":5000},'' @
     ''"showSparkLine":true,"timestampHidden":false,"type":"SingleValue"},'' @
     ''"programText":"data('cpu').publish()"}''\<close>

definition configured_text :: string where
  \<open>configured_text =
     ''{"description":"CPU load","name":"x","options":{"colorBy":"Scale",'' @
     ''"colorScale2":[{}],"maximumPrecision":3,"programOptions":{"maxDelay":5000},'' @
     ''"publishLabelOptions":[{}],"refreshInterval":60000,'' @
     ''"secondaryVisualization":"Radial","showSparkLine":true,"timestampHidden":true,'' @
     ''"type":"SingleValue","unitPrefix":"Binary"},"programText":"data('cpu').publish()"}''\<close>

definition by_dimension_text :: string where
  \<open>by_dimension_text =
     ''{"description":"","name":"x","options":{"colorBy":"Dimension",'' @
     ''"showSparkLine":false,"timestampHidden":false,"type":"SingleValue"},'' @
     ''"programText":"data('cpu').publish()"}''\<close>

section \<open>Lemmas on maps\<close>

lemma map_of_map_set: "map_of (map_set k v m) = (map_of m)(k \<mapsto> v)"
  by (induction m) (auto simp: fun_eq_iff)

lemma lookup_map_set: "lookup (map_set k v m) k' = (if k' = k then Some v else lookup m k')"
  by (simp add: lookup_def map_of_map_set)

lemma lookup_Nil: "lookup [] k = None"
  by (simp add: lookup_def)

lemma lookup_Cons: "lookup ((k, v) # m) k' = (if k' = k then Some v else lookup m k')"
  by (simp add: lookup_def)

lemma map_set_not_Nil: "map_set k v m \<noteq> []"
  by (cases m) (auto split: if_splits)

text \<open>From here on \<open>map_set\<close> is unfolded only where a concrete map is computed.\<close>

declare map_set.simps [simp del]

lemma lookup_set_if: "lookup (set_if c k v m) k' = (if c \<and> k' = k then Some v else lookup m k')"
  by (simp add: set_if_def lookup_map_set)

lemma set_if_nested: "(if c then set_if c' k v m else m) = set_if (c \<and> c') k v m"
  by (simp add: set_if_def)

lemma json_path_Nil: "json_path j [] = Some j"
  by simp

lemma json_path_single: "json_path j [k] = json_get j k"
  by (simp split: option.splits)

lemma json_path_object:
  "json_path (JObject m) (k # ks) =
     (case lookup m k of None \<Rightarrow> None | Some j \<Rightarrow> json_path j ks)"
  by simp

text \<open>Paths are followed by the lemmas above and by those on the payload below.\<close>

declare json_path.simps [simp del]

section \<open>The options object, statement by statement\<close>

text \<open>The statement on \<^verbatim>\<open>color_by\<close> as three guarded assignments.\<close>

lemma color_by_step:
  "(if ok then if val = ''Scale''
               then if 0 < length X
                    then map_set ''colorScale2'' (JArray X)
                           (map_set ''colorBy'' (JString ''Scale'') m)
                    else m
               else map_set ''colorBy'' (JString val) m
    else m) =
   set_if (ok \<and> val \<noteq> ''Scale'') ''colorBy'' (JString val)
     (set_if (ok \<and> val = ''Scale'' \<and> X \<noteq> []) ''colorScale2'' (JArray X)
       (set_if (ok \<and> val = ''Scale'' \<and> X \<noteq> []) ''colorBy'' (JString ''Scale'') m))"
  by (simp add: set_if_def)

lemma options_steps:
  "getSingleValueChartOptions cs d =
    map_set ''showSparkLine'' (JBool (Get_bool (show_spark_line d)))
     (map_set ''timestampHidden'' (JBool (Get_bool (is_timestamp_hidden d)))
      (set_if (snd (GetOk_string (secondary_visualization d)) \<and>
               Get_string (secondary_visualization d) \<noteq> [])
          ''secondaryVisualization'' (JString (Get_string (secondary_visualization d)))
       (set_if (snd (GetOk_int (max_precision d)))
           ''maximumPrecision'' (JInt (Get_int (max_precision d)))
        (set_if (snd (GetOk_int (refresh_interval d)))
            ''refreshInterval'' (JInt (Get_int (refresh_interval d) * 1000))
         (set_if (snd (GetOk_int (max_delay d))) ''programOptions''
             (JObject (map_set ''maxDelay'' (JInt (Get_int (max_delay d) * 1000)) []))
          (set_if (snd (GetOk_string (color_by d)) \<and> Get_string (color_by d) \<noteq> ''Scale'')
              ''colorBy'' (JString (Get_string (color_by d)))
           (set_if (snd (GetOk_string (color_by d)) \<and> Get_string (color_by d) = ''Scale'' \<and>
                    getColorScaleOptions cs d \<noteq> [])
               ''colorScale2'' (JArray (getColorScaleOptions cs d))
            (set_if (snd (GetOk_string (color_by d)) \<and> Get_string (color_by d) = ''Scale'' \<and>
                     getColorScaleOptions cs d \<noteq> [])
                ''colorBy'' (JString ''Scale'')
             (set_if (snd (GetOk_string (unit_prefix d)))
                 ''unitPrefix'' (JString (Get_string (unit_prefix d)))
              (map_set ''type'' (JString ''SingleValue'') []))))))))))"
  unfolding getSingleValueChartOptions_def GetOk_string_def GetOk_int_def
  by (simp only: prod.case Let_def set_if_def[symmetric] set_if_nested color_by_step snd_conv
        cong: if_cong)

lemma options_not_Nil: "getSingleValueChartOptions cs d \<noteq> []"
  by (simp only: options_steps map_set_not_Nil not_False_eq_True)

lemmas options_lookup = options_steps lookup_set_if lookup_map_set lookup_Nil

lemma options_type:
  "lookup (getSingleValueChartOptions cs d) ''type'' = Some (JString ''SingleValue'')"
  by (simp add: options_lookup)

lemma options_timestampHidden:
  "lookup (getSingleValueChartOptions cs d) ''timestampHidden'' =
     Some (JBool (Get_bool (is_timestamp_hidden d)))"
  by (simp add: options_lookup)

lemma options_showSparkLine:
  "lookup (getSingleValueChartOptions cs d) ''showSparkLine'' =
     Some (JBool (Get_bool (show_spark_line d)))"
  by (simp add: options_lookup)

lemma options_unitPrefix:
  "lookup (getSingleValueChartOptions cs d) ''unitPrefix'' =
     (if snd (GetOk_string (unit_prefix d))
      then Some (JString (Get_string (unit_prefix d))) else None)"
  by (simp add: options_lookup)

lemma options_colorBy:
  "lookup (getSingleValueChartOptions cs d) ''colorBy'' =
     (if snd (GetOk_string (color_by d)) \<and> Get_string (color_by d) \<noteq> ''Scale''
      then Some (JString (Get_string (color_by d)))
      else if color_by d = Some ''Scale'' \<and> color_scale d \<noteq> []
      then Some (JString ''Scale'') else None)"
  by (auto simp add: options_lookup GetOk_string_def Get_string_def getColorScaleOptions_def
        split: option.splits)

lemma options_colorScale2:
  "lookup (getSingleValueChartOptions cs d) ''colorScale2'' =
     (if color_by d = Some ''Scale'' \<and> color_scale d \<noteq> []
      then Some (JArray (map cs (color_scale d))) else None)"
  by (auto simp add: options_lookup GetOk_string_def Get_string_def getColorScaleOptions_def
        split: option.splits)

lemma options_programOptions:
  "lookup (getSingleValueChartOptions cs d) ''programOptions'' =
     (if snd (GetOk_int (max_delay d))
      then Some (JObject [(''maxDelay'', JInt (Get_int (max_delay d) * 1000))]) else None)"
  by (simp add: options_lookup) (simp add: map_set.simps)

lemma options_refreshInterval:
  "lookup (getSingleValueChartOptions cs d) ''refreshInterval'' =
     (if snd (GetOk_int (refresh_interval d))
      then Some (JInt (Get_int (refresh_interval d) * 1000)) else None)"
  by (simp add: options_lookup)

lemma options_maximumPrecision:
  "lookup (getSingleValueChartOptions cs d) ''maximumPrecision'' =
     (if snd (GetOk_int (max_precision d))
      then Some (JInt (Get_int (max_precision d))) else None)"
  by (simp add: options_lookup)

lemma options_secondaryVisualization:
  "lookup (getSingleValueChartOptions cs d) ''secondaryVisualization'' =
     (if snd (GetOk_string (secondary_visualization d))
      then Some (JString (Get_string (secondary_visualization d))) else None)"
  by (simp add: options_lookup GetOk_string_def)

lemma options_publishLabelOptions:
  "lookup (getSingleValueChartOptions cs d) ''publishLabelOptions'' = None"
  by (simp add: options_lookup)

lemmas options_keys = options_type options_timestampHidden options_showSparkLine
  options_unitPrefix options_colorBy options_colorScale2 options_programOptions
  options_refreshInterval options_maximumPrecision options_secondaryVisualization
  options_publishLabelOptions

section \<open>The payload\<close>

lemma payload_steps:
  "payloadSingleValueChart cs vz d =
     JObject (map_set ''options''
        (JObject (set_if (viz_options d \<noteq> []) ''publishLabelOptions''
                    (JArray (map vz (viz_options d))) (getSingleValueChartOptions cs d)))
        (map_set ''programText'' (JString (Get_string (program_text d)))
          (map_set ''description'' (JString (Get_string (description d)))
            (map_set ''name'' (JString (Get_string (name d))) []))))"
proof -
  have ne: "set_if c k v (getSingleValueChartOptions cs d) \<noteq> []" for c k v
    by (simp add: set_if_def options_not_Nil map_set_not_Nil)
  show ?thesis
    unfolding payloadSingleValueChart_def getPerSignalVizOptions_def map_lit_def
    using ne by (simp add: Let_def set_if_def)
qed

lemma payload_top:
  "json_get (payloadSingleValueChart cs vz d) k =
     (if k = ''options''
      then Some (JObject (set_if (viz_options d \<noteq> []) ''publishLabelOptions''
                   (JArray (map vz (viz_options d))) (getSingleValueChartOptions cs d)))
      else if k = ''programText'' then Some (JString (Get_string (program_text d)))
      else if k = ''description'' then Some (JString (Get_string (description d)))
      else if k = ''name'' then Some (JString (Get_string (name d)))
      else None)"
  by (simp add: payload_steps lookup_map_set lookup_Nil)

lemma payload_options:
  "json_path (payloadSingleValueChart cs vz d) (''options'' # k # ks) =
     (case (if viz_options d \<noteq> [] \<and> k = ''publishLabelOptions''
            then Some (JArray (map vz (viz_options d)))
            else lookup (getSingleValueChartOptions cs d) k) of
        None \<Rightarrow> None | Some j \<Rightarrow> json_path j ks)"
  by (simp add: json_path.simps payload_top lookup_set_if)

lemmas payload_paths = json_path_Nil json_path_single payload_top payload_options options_keys

lemmas Get_defs = Get_string_def Get_int_def Get_bool_def GetOk_string_def GetOk_int_def

lemmas payload_eval = payload_steps options_steps getColorScaleOptions_def Get_defs set_if_def
  map_lit_def map_set.simps

text \<open>Multiplying by 1000 in \<^verbatim>\<open>int\<close> is exact as long as the product fits.\<close>

lemma sint_times_1000:
  "- (2 ^ 63) \<le> sint (s :: go_int) * 1000 \<Longrightarrow> sint s * 1000 < 2 ^ 63
     \<Longrightarrow> sint (s * 1000) = sint s * 1000"
  by (simp add: sint_word_ariths signed_take_bit_int_eq_self)

text \<open>Beyond that it wraps around: the largest \<^verbatim>\<open>int\<close> times 1000 is \<open>-1000\<close>.\<close>

lemma times_1000_wraps: "sint (9223372036854775807 * 1000 :: go_int) = - 1000"
  by simp

section \<open>Payload construction reads the state\<close>

lemma run_state_if:
  "run_state (if c then m else n) w = (if c then run_state m w else run_state n w)"
  by simp

lemma if_same_state: "(if c then (a, s) else (b, s)) = (if c then a else b, s)"
  by simp

lemmas st_defs = d_Get_string_def d_Get_bool_def d_GetOk_string_def d_GetOk_int_def
  getColorScaleOptions_st_def getPerSignalVizOptions_st_def

lemma options_st:
  "run_state (getSingleValueChartOptions_st cs) w = (getSingleValueChartOptions cs (res w), w)"
  unfolding getSingleValueChartOptions_st_def getSingleValueChartOptions_def st_defs
  by (simp add: Let_def split_def run_state_if if_same_state cong: if_cong split del: if_split)

lemma payload_st:
  "run_state (getPayloadSingleValueChart_st marshal cs vz) w
     = (getPayloadSingleValueChart marshal cs vz (res w), w)"
  unfolding getPayloadSingleValueChart_st_def getPayloadSingleValueChart_def
    payloadSingleValueChart_def st_defs
  by (simp add: options_st Let_def)

section \<open>The concrete payloads as text\<close>

lemmas text_defs = quoted_def int_text_def nat_text.simps

lemma scenario_compact: "compact (payloadSingleValueChart entry0 entry0 scenario) = scenario_text"
  by (simp add: payload_eval scenario_def unset_def text_defs scenario_text_def)

lemma managed_compact: "compact (payloadSingleValueChart entry0 entry0 managed) = scenario_text"
  by (simp add: payload_eval managed_def scenario_def unset_def text_defs scenario_text_def)

lemma configured_compact:
  "compact (payloadSingleValueChart entry0 entry0 configured) = configured_text"
  by (simp add: payload_eval configured_def entry0_def text_defs configured_text_def)

lemma by_dimension_compact:
  "compact (payloadSingleValueChart entry0 entry0 (by_dimension\<lparr>rd_id := ''abc''\<rparr>))
     = by_dimension_text"
  by (simp add: payload_eval by_dimension_def minimal_def unset_def text_defs
        by_dimension_text_def)

lemma texts_differ: "configured_text \<noteq> scenario_text"
  by (simp add: configured_text_def scenario_text_def)

section \<open>The end-to-end scenario\<close>

text \<open>
  The payload of the scenario is not the object the specification gives:
  \<^verbatim>\<open>getPayloadSingleValueChart\<close> puts \<^verbatim>\<open>d.Get("description")\<close> under the key
  \<^verbatim>\<open>description\<close> whether or not the field is set, so the payload has that key, with the
  empty string, and the specification's object has not.
\<close>

theorem scenario_payload_differs:
  "payloadSingleValueChart entry0 entry0 scenario \<noteq> scenario_claimed \<and>
   json_get (payloadSingleValueChart entry0 entry0 scenario) ''description'' = Some (JString '''') \<and>
   json_get scenario_claimed ''description'' = None"
proof -
  have a: "json_get (payloadSingleValueChart entry0 entry0 scenario) ''description''
             = Some (JString '''')"
    by (simp add: payload_top scenario_def unset_def Get_string_def)
  have b: "json_get scenario_claimed ''description'' = None"
    by (simp add: scenario_claimed_def map_lit_def lookup_map_set lookup_Nil)
  from a b show ?thesis by auto
qed

text \<open>
  Claim C1, amended: for the scenario the map handed to \<^verbatim>\<open>json.Marshal\<close> is exactly the
  object of the specification with one more key, \<^verbatim>\<open>"description": ""\<close>, and the bytes
  returned are its serialisation.
\<close>

theorem scenario_payload:
  "payloadSingleValueChart cs vz scenario =
     JObject (map_lit
      [(''name'', JString ''x''),
       (''description'', JString ''''),
       (''programText'', JString ''data('cpu').publish()''),
       (''options'', JObject (map_lit
          [(''type'', JString ''SingleValue''),
           (''programOptions'', JObject (map_lit [(''maxDelay'', JInt 5000)])),
           (''timestampHidden'', JBool False),
           (''showSparkLine'', JBool True)]))])
   \<and> getPayloadSingleValueChart marshal cs vz scenario =
     marshal (JObject (map_lit
      [(''name'', JString ''x''),
       (''description'', JString ''''),
       (''programText'', JString ''data('cpu').publish()''),
       (''options'', JObject (map_lit
          [(''type'', JString ''SingleValue''),
           (''programOptions'', JObject (map_lit [(''maxDelay'', JInt 5000)])),
           (''timestampHidden'', JBool False),
           (''showSparkLine'', JBool True)]))]))"
  by (simp add: getPayloadSingleValueChart_def payload_eval scenario_def unset_def)

section \<open>Required fields and unset fields\<close>

text \<open>
  An optional field that was never set is sent all the same: in the chart \<open>minimal\<close> the description is not set and the payload carries
  \<^verbatim>\<open>"description": ""\<close>, the zero value, which is also the payload of the same chart with
  the description set to the empty string.
\<close>

theorem unset_description_is_sent:
  "description minimal = None \<and>
   json_path (payloadSingleValueChart entry0 entry0 minimal) [''description'']
     = Some (JString '''') \<and>
   payloadSingleValueChart entry0 entry0 (minimal\<lparr>description := Some ''''\<rparr>)
     = payloadSingleValueChart entry0 entry0 minimal"
proof -
  have "json_path (payloadSingleValueChart entry0 entry0 minimal) [''description'']
          = Some (JString '''')"
    by (simp add: payload_paths minimal_def unset_def Get_string_def)
  moreover have "payloadSingleValueChart entry0 entry0 (minimal\<lparr>description := Some ''''\<rparr>)
                   = payloadSingleValueChart entry0 entry0 minimal"
    by (simp add: payload_steps options_steps getColorScaleOptions_def Get_string_def
          minimal_def unset_def)
  moreover have "description minimal = None"
    by (simp add: minimal_def unset_def)
  ultimately show ?thesis by simp
qed

text \<open>
  Claim C2, amended: every payload carries the required fields under \<^verbatim>\<open>name\<close> and
  \<^verbatim>\<open>programText\<close>; it also always carries \<^verbatim>\<open>description\<close>, \<^verbatim>\<open>options.timestampHidden\<close>
  and \<^verbatim>\<open>options.showSparkLine\<close>, with the value \<^verbatim>\<open>d.Get\<close> returns (the empty string and
  \<^verbatim>\<open>false\<close> when the field is not set); the key of every other optional field that was
  never set is absent.
\<close>

theorem payload_required_and_unset_fields:
  "json_path (payloadSingleValueChart cs vz d) [''name'']
     = Some (JString (Get_string (name d))) \<and>
   json_path (payloadSingleValueChart cs vz d) [''programText'']
     = Some (JString (Get_string (program_text d))) \<and>
   json_path (payloadSingleValueChart cs vz d) [''description'']
     = Some (JString (Get_string (description d))) \<and>
   json_path (payloadSingleValueChart cs vz d) [''options'', ''timestampHidden'']
     = Some (JBool (Get_bool (is_timestamp_hidden d))) \<and>
   json_path (payloadSingleValueChart cs vz d) [''options'', ''showSparkLine'']
     = Some (JBool (Get_bool (show_spark_line d))) \<and>
   (unit_prefix d = None \<longrightarrow>
      json_path (payloadSingleValueChart cs vz d) [''options'', ''unitPrefix''] = None) \<and>
   (color_by d = None \<longrightarrow>
      json_path (payloadSingleValueChart cs vz d) [''options'', ''colorBy''] = None) \<and>
   (max_delay d = None \<longrightarrow>
      json_path (payloadSingleValueChart cs vz d) [''options'', ''programOptions''] = None) \<and>
   (refresh_interval d = None \<longrightarrow>
      json_path (payloadSingleValueChart cs vz d) [''options'', ''refreshInterval''] = None) \<and>
   (max_precision d = None \<longrightarrow>
      json_path (payloadSingleValueChart cs vz d) [''options'', ''maximumPrecision''] = None) \<and>
   (secondary_visualization d = None \<longrightarrow>
      json_path (payloadSingleValueChart cs vz d) [''options'', ''secondaryVisualization'']
        = None) \<and>
   (color_scale d = [] \<longrightarrow>
      json_path (payloadSingleValueChart cs vz d) [''options'', ''colorScale2''] = None) \<and>
   (viz_options d = [] \<longrightarrow>
      json_path (payloadSingleValueChart cs vz d) [''options'', ''publishLabelOptions''] = None) \<and>
   (k \<notin> {''name'', ''description'', ''programText'', ''options''} \<longrightarrow>
      json_path (payloadSingleValueChart cs vz d) [k] = None) \<and>
   (k \<notin> {''type'', ''unitPrefix'', ''colorBy'', ''colorScale2'', ''programOptions'',
          ''refreshInterval'', ''maximumPrecision'', ''secondaryVisualization'',
          ''timestampHidden'', ''showSparkLine'', ''publishLabelOptions''} \<longrightarrow>
      json_path (payloadSingleValueChart cs vz d) [''options'', k] = None)"
proof -
  have other: "json_path (payloadSingleValueChart cs vz d) [''options'', k] = None"
    if "k \<notin> {''type'', ''unitPrefix'', ''colorBy'', ''colorScale2'', ''programOptions'',
          ''refreshInterval'', ''maximumPrecision'', ''secondaryVisualization'',
          ''timestampHidden'', ''showSparkLine'', ''publishLabelOptions''}"
    using that by (simp add: payload_options options_lookup)
  have known: "k \<notin> {''name'', ''description'', ''programText'', ''options''} \<longrightarrow>
      json_path (payloadSingleValueChart cs vz d) [k] = None"
    by (simp add: json_path_single payload_top)
  show ?thesis
    using other known by (simp add: payload_paths GetOk_string_def GetOk_int_def)
qed

theorem payload_required_and_unset_fields_witness:
  "unit_prefix minimal = None \<and> color_by minimal = None \<and> max_delay minimal = None \<and>
   refresh_interval minimal = None \<and> max_precision minimal = None \<and>
   secondary_visualization minimal = None \<and> color_scale minimal = [] \<and>
   viz_options minimal = [] \<and>
   json_path (payloadSingleValueChart entry0 entry0 minimal) [''name''] = Some (JString ''x'') \<and>
   json_path (payloadSingleValueChart entry0 entry0 minimal) [''options'', ''unitPrefix''] = None \<and>
   json_path (payloadSingleValueChart entry0 entry0 minimal) [''options'', ''colorBy''] = None \<and>
   json_path (payloadSingleValueChart entry0 entry0 minimal) [''options'', ''programOptions'']
     = None \<and>
   json_path (payloadSingleValueChart entry0 entry0 minimal) [''options'', ''refreshInterval'']
     = None \<and>
   json_path (payloadSingleValueChart entry0 entry0 minimal) [''options'', ''maximumPrecision'']
     = None \<and>
   json_path (payloadSingleValueChart entry0 entry0 minimal)
     [''options'', ''secondaryVisualization''] = None \<and>
   json_path (payloadSingleValueChart entry0 entry0 minimal) [''options'', ''colorScale2'']
     = None \<and>
   json_path (payloadSingleValueChart entry0 entry0 minimal) [''options'', ''publishLabelOptions'']
     = None \<and>
   json_path (payloadSingleValueChart entry0 entry0 minimal) [''synced''] = None \<and>
   json_path (payloadSingleValueChart entry0 entry0 minimal) [''options'', ''synced''] = None"
  using payload_required_and_unset_fields [where cs = entry0 and vz = entry0 and d = minimal
      and k = "''synced''"]
  by (simp add: minimal_def unset_def Get_string_def)

section \<open>The colour mode\<close>

text \<open>
  With \<^verbatim>\<open>color_by\<close> set to \<^verbatim>\<open>Scale\<close> and no \<^verbatim>\<open>color_scale\<close> block, nothing is attached,
  neither the selector nor the nested structure: both assignments sit under
  \<^verbatim>\<open>len(colorScaleOptions) > 0\<close>.
\<close>

theorem scale_without_entries_attaches_nothing:
  "color_by scale_without_entries = Some ''Scale'' \<and>
   json_path (payloadSingleValueChart entry0 entry0 scale_without_entries)
     [''options'', ''colorBy''] = None \<and>
   json_path (payloadSingleValueChart entry0 entry0 scale_without_entries)
     [''options'', ''colorScale2''] = None"
  by (simp add: payload_paths scale_without_entries_def minimal_def unset_def Get_defs)

text \<open>
  Claim C3, amended: if \<^verbatim>\<open>color_by\<close> is \<^verbatim>\<open>Scale\<close> and there is at least one
  \<^verbatim>\<open>color_scale\<close> block, the options carry \<^verbatim>\<open>colorBy = "Scale"\<close> together with the list
  of scale entries under \<^verbatim>\<open>colorScale2\<close>; if \<^verbatim>\<open>color_by\<close> is \<^verbatim>\<open>Scale\<close> and there is no
  block, they carry neither key; if \<^verbatim>\<open>color_by\<close> is any other non-empty value, they carry
  \<^verbatim>\<open>colorBy\<close> with that value and no \<^verbatim>\<open>colorScale2\<close>.
\<close>

theorem color_by_modes:
  "(color_by d = Some ''Scale'' \<and> color_scale d \<noteq> [] \<longrightarrow>
      json_path (payloadSingleValueChart cs vz d) [''options'', ''colorBy'']
        = Some (JString ''Scale'') \<and>
      json_path (payloadSingleValueChart cs vz d) [''options'', ''colorScale2'']
        = Some (JArray (getColorScaleOptions cs d))) \<and>
   (color_by d = Some ''Scale'' \<and> color_scale d = [] \<longrightarrow>
      json_path (payloadSingleValueChart cs vz d) [''options'', ''colorBy''] = None \<and>
      json_path (payloadSingleValueChart cs vz d) [''options'', ''colorScale2''] = None) \<and>
   (color_by d = Some v \<and> v \<noteq> ''Scale'' \<and> v \<noteq> '''' \<longrightarrow>
      json_path (payloadSingleValueChart cs vz d) [''options'', ''colorBy'']
        = Some (JString v) \<and>
      json_path (payloadSingleValueChart cs vz d) [''options'', ''colorScale2''] = None)"
  by (simp add: payload_paths getColorScaleOptions_def GetOk_string_def Get_string_def)

theorem color_by_modes_witness:
  "(color_by scale_with_entry = Some ''Scale'' \<and> color_scale scale_with_entry \<noteq> [] \<and>
    json_path (payloadSingleValueChart entry0 entry0 scale_with_entry) [''options'', ''colorBy'']
      = Some (JString ''Scale'') \<and>
    json_path (payloadSingleValueChart entry0 entry0 scale_with_entry)
      [''options'', ''colorScale2''] = Some (JArray [JObject []])) \<and>
   (color_by scale_without_entries = Some ''Scale'' \<and> color_scale scale_without_entries = [] \<and>
    json_path (payloadSingleValueChart entry0 entry0 scale_without_entries)
      [''options'', ''colorScale2''] = None) \<and>
   (color_by by_dimension = Some ''Dimension'' \<and>
    json_path (payloadSingleValueChart entry0 entry0 by_dimension) [''options'', ''colorBy'']
      = Some (JString ''Dimension'') \<and>
    json_path (payloadSingleValueChart entry0 entry0 by_dimension) [''options'', ''colorScale2'']
      = None)"
  using color_by_modes [of scale_with_entry entry0 entry0 "''Scale''"]
    color_by_modes [of scale_without_entries entry0 entry0 "''Scale''"]
    color_by_modes [of by_dimension entry0 entry0 "''Dimension''"]
  by (simp add: scale_with_entry_def scale_without_entries_def by_dimension_def minimal_def
        unset_def getColorScaleOptions_def entry0_def)

text \<open>
  Claim C10: the options of every payload have the key \<^verbatim>\<open>colorScale2\<close> exactly when they
  have \<^verbatim>\<open>colorBy\<close> with the value \<^verbatim>\<open>Scale\<close>; and when \<^verbatim>\<open>color_by\<close> is \<^verbatim>\<open>Scale\<close> with an
  empty \<^verbatim>\<open>color_scale\<close> set, neither key appears.
\<close>

theorem colorScale2_iff_colorBy_Scale:
  "(json_path (payloadSingleValueChart cs vz d) [''options'', ''colorScale2''] \<noteq> None)
     = (json_path (payloadSingleValueChart cs vz d) [''options'', ''colorBy'']
          = Some (JString ''Scale'')) \<and>
   (color_by d = Some ''Scale'' \<and> color_scale d = [] \<longrightarrow>
      json_path (payloadSingleValueChart cs vz d) [''options'', ''colorBy''] = None \<and>
      json_path (payloadSingleValueChart cs vz d) [''options'', ''colorScale2''] = None)"
  by (auto simp add: payload_paths GetOk_string_def Get_string_def split: option.splits)

theorem colorScale2_iff_colorBy_Scale_witness:
  "color_by scale_without_entries = Some ''Scale'' \<and> color_scale scale_without_entries = [] \<and>
   json_path (payloadSingleValueChart entry0 entry0 scale_without_entries)
     [''options'', ''colorBy''] = None \<and>
   json_path (payloadSingleValueChart entry0 entry0 scale_without_entries)
     [''options'', ''colorScale2''] = None"
  using colorScale2_iff_colorBy_Scale [of entry0 entry0 scale_without_entries]
  by (simp add: scale_without_entries_def minimal_def unset_def)

section \<open>Seconds and milliseconds\<close>

text \<open>
  A time field set to \<^verbatim>\<open>0\<close> is not sent as \<^verbatim>\<open>0 * 1000\<close>: \<^verbatim>\<open>d.GetOk\<close>
  answers \<^verbatim>\<open>ok == false\<close> for the zero value, and the key is left out.
\<close>

theorem zero_delay_is_omitted:
  "max_delay zero_delay = Some 0 \<and> refresh_interval zero_delay = Some 0 \<and>
   json_path (payloadSingleValueChart entry0 entry0 zero_delay)
     [''options'', ''programOptions'', ''maxDelay''] = None \<and>
   json_path (payloadSingleValueChart entry0 entry0 zero_delay)
     [''options'', ''refreshInterval''] = None"
  by (simp add: payload_paths zero_delay_def minimal_def unset_def Get_defs)

text \<open>
  Claim C4, amended: when \<^verbatim>\<open>max_delay\<close> (respectively \<^verbatim>\<open>refresh_interval\<close>) is set to a
  value \<open>s\<close> other than 0, the payload carries \<^verbatim>\<open>options.programOptions.maxDelay\<close>
  (respectively \<^verbatim>\<open>options.refreshInterval\<close>) \<open>= s * 1000\<close> in Go's \<^verbatim>\<open>int\<close> arithmetic, which
  is the exact product whenever that fits the \<^verbatim>\<open>int\<close> range (and wraps around otherwise);
  the other numeric field, \<^verbatim>\<open>max_precision\<close>, is carried as it is; a time field set to 0
  is left out as an unset one is.
\<close>

theorem time_fields_in_milliseconds:
  "(max_delay d = Some s \<and> s \<noteq> 0 \<longrightarrow>
      json_path (payloadSingleValueChart cs vz d) [''options'', ''programOptions'', ''maxDelay'']
        = Some (JInt (s * 1000)) \<and>
      (- (2 ^ 63) \<le> sint s * 1000 \<and> sint s * 1000 < 2 ^ 63 \<longrightarrow>
         sint (s * 1000) = sint s * 1000)) \<and>
   (refresh_interval d = Some r \<and> r \<noteq> 0 \<longrightarrow>
      json_path (payloadSingleValueChart cs vz d) [''options'', ''refreshInterval'']
        = Some (JInt (r * 1000)) \<and>
      (- (2 ^ 63) \<le> sint r * 1000 \<and> sint r * 1000 < 2 ^ 63 \<longrightarrow>
         sint (r * 1000) = sint r * 1000)) \<and>
   (max_precision d = Some p \<and> p \<noteq> 0 \<longrightarrow>
      json_path (payloadSingleValueChart cs vz d) [''options'', ''maximumPrecision'']
        = Some (JInt p)) \<and>
   (max_delay d = Some 0 \<longrightarrow>
      json_path (payloadSingleValueChart cs vz d) [''options'', ''programOptions''] = None) \<and>
   (refresh_interval d = Some 0 \<longrightarrow>
      json_path (payloadSingleValueChart cs vz d) [''options'', ''refreshInterval''] = None)"
  by (simp add: payload_paths lookup_Cons lookup_Nil Get_defs sint_times_1000)

theorem time_fields_in_milliseconds_witness:
  "(max_delay timed = Some 5 \<and> refresh_interval timed = Some 5 \<and> max_precision timed = Some 5 \<and>
    json_path (payloadSingleValueChart entry0 entry0 timed)
      [''options'', ''programOptions'', ''maxDelay''] = Some (JInt 5000) \<and>
    json_path (payloadSingleValueChart entry0 entry0 timed) [''options'', ''refreshInterval'']
      = Some (JInt 5000) \<and>
    json_path (payloadSingleValueChart entry0 entry0 timed) [''options'', ''maximumPrecision'']
      = Some (JInt 5) \<and>
    sint (5 * 1000 :: go_int) = 5000) \<and>
   (max_delay zero_delay = Some 0 \<and> refresh_interval zero_delay = Some 0 \<and>
    json_path (payloadSingleValueChart entry0 entry0 zero_delay) [''options'', ''programOptions'']
      = None \<and>
    json_path (payloadSingleValueChart entry0 entry0 zero_delay) [''options'', ''refreshInterval'']
      = None)"
  using time_fields_in_milliseconds [of timed 5 entry0 entry0 5 5]
    time_fields_in_milliseconds [of zero_delay 5 entry0 entry0 5 5]
  by (simp add: timed_def zero_delay_def minimal_def unset_def)

section \<open>Nested blocks and the keys that are always there\<close>

text \<open>
  Claim C5: when \<^verbatim>\<open>color_scale\<close> (respectively \<^verbatim>\<open>viz_options\<close>) has no entry, the key
  \<^verbatim>\<open>colorScale2\<close> (respectively \<^verbatim>\<open>publishLabelOptions\<close>) is absent from the options of the
  payload; and in no payload is either key present with an empty list.
\<close>

theorem empty_blocks_are_omitted:
  "(color_scale d = [] \<longrightarrow>
      json_path (payloadSingleValueChart cs vz d) [''options'', ''colorScale2''] = None) \<and>
   (viz_options d = [] \<longrightarrow>
      json_path (payloadSingleValueChart cs vz d) [''options'', ''publishLabelOptions''] = None) \<and>
   json_path (payloadSingleValueChart cs vz d) [''options'', ''colorScale2'']
     \<noteq> Some (JArray []) \<and>
   json_path (payloadSingleValueChart cs vz d) [''options'', ''publishLabelOptions'']
     \<noteq> Some (JArray [])"
  by (simp add: payload_paths)

theorem empty_blocks_are_omitted_witness:
  "color_scale scale_without_entries = [] \<and> viz_options scale_without_entries = [] \<and>
   json_path (payloadSingleValueChart entry0 entry0 scale_without_entries)
     [''options'', ''colorScale2''] = None \<and>
   json_path (payloadSingleValueChart entry0 entry0 scale_without_entries)
     [''options'', ''publishLabelOptions''] = None"
  using empty_blocks_are_omitted [of scale_without_entries entry0 entry0]
  by (simp add: scale_without_entries_def minimal_def unset_def)

text \<open>
  The two booleans are not the only optional fields that are sent when they were never
  set: the description of the scenario is not set, and the payload carries it, as the
  empty string.
\<close>

theorem unset_description_of_scenario_is_sent:
  "description scenario = None \<and>
   json_path (payloadSingleValueChart entry0 entry0 scenario) [''description'']
     = Some (JString '''')"
  by (simp add: payload_paths scenario_def unset_def Get_string_def)

text \<open>
  Claim C9, amended: every payload has the key \<^verbatim>\<open>options\<close>, an object with
  \<^verbatim>\<open>type = "SingleValue"\<close>, \<^verbatim>\<open>timestampHidden\<close> and \<^verbatim>\<open>showSparkLine\<close>; the two booleans are
  there, with \<^verbatim>\<open>false\<close>, also when \<^verbatim>\<open>is_timestamp_hidden\<close> and \<^verbatim>\<open>show_spark_line\<close> were
  never set. The optional \<^verbatim>\<open>description\<close> is always sent too, at the top level, with the
  empty string when it was never set. Every other optional field (\<^verbatim>\<open>unit_prefix\<close>,
  \<^verbatim>\<open>color_by\<close>, \<^verbatim>\<open>max_delay\<close>, \<^verbatim>\<open>refresh_interval\<close>, \<^verbatim>\<open>max_precision\<close>,
  \<^verbatim>\<open>secondary_visualization\<close>, \<^verbatim>\<open>color_scale\<close>, \<^verbatim>\<open>viz_options\<close>) has no key in the payload
  when it was never set, and the options object has no key besides those of these fields.
\<close>

theorem options_always_present:
  "(\<exists>viz. json_path (payloadSingleValueChart cs vz d) [''options''] = Some (JObject viz)) \<and>
   json_path (payloadSingleValueChart cs vz d) [''options'', ''type'']
     = Some (JString ''SingleValue'') \<and>
   json_path (payloadSingleValueChart cs vz d) [''options'', ''timestampHidden'']
     = Some (JBool (Get_bool (is_timestamp_hidden d))) \<and>
   json_path (payloadSingleValueChart cs vz d) [''options'', ''showSparkLine'']
     = Some (JBool (Get_bool (show_spark_line d))) \<and>
   (is_timestamp_hidden d = None \<longrightarrow>
      json_path (payloadSingleValueChart cs vz d) [''options'', ''timestampHidden'']
        = Some (JBool False)) \<and>
   (show_spark_line d = None \<longrightarrow>
      json_path (payloadSingleValueChart cs vz d) [''options'', ''showSparkLine'']
        = Some (JBool False)) \<and>
   json_path (payloadSingleValueChart cs vz d) [''description'']
     = Some (JString (Get_string (description d))) \<and>
   (description d = None \<longrightarrow>
      json_path (payloadSingleValueChart cs vz d) [''description''] = Some (JString '''')) \<and>
   (unit_prefix d = None \<longrightarrow>
      json_path (payloadSingleValueChart cs vz d) [''options'', ''unitPrefix''] = None) \<and>
   (color_by d = None \<longrightarrow>
      json_path (payloadSingleValueChart cs vz d) [''options'', ''colorBy''] = None \<and>
      json_path (payloadSingleValueChart cs vz d) [''options'', ''colorScale2''] = None) \<and>
   (max_delay d = None \<longrightarrow>
      json_path (payloadSingleValueChart cs vz d) [''options'', ''programOptions''] = None) \<and>
   (refresh_interval d = None \<longrightarrow>
      json_path (payloadSingleValueChart cs vz d) [''options'', ''refreshInterval''] = None) \<and>
   (max_precision d = None \<longrightarrow>
      json_path (payloadSingleValueChart cs vz d) [''options'', ''maximumPrecision''] = None) \<and>
   (secondary_visualization d = None \<longrightarrow>
      json_path (payloadSingleValueChart cs vz d) [''options'', ''secondaryVisualization'']
        = None) \<and>
   (color_scale d = [] \<longrightarrow>
      json_path (payloadSingleValueChart cs vz d) [''options'', ''colorScale2''] = None) \<and>
   (viz_options d = [] \<longrightarrow>
      json_path (payloadSingleValueChart cs vz d) [''options'', ''publishLabelOptions'']
        = None) \<and>
   (k \<notin> {''type'', ''unitPrefix'', ''colorBy'', ''colorScale2'', ''programOptions'',
          ''refreshInterval'', ''maximumPrecision'', ''secondaryVisualization'',
          ''timestampHidden'', ''showSparkLine'', ''publishLabelOptions''} \<longrightarrow>
      json_path (payloadSingleValueChart cs vz d) [''options'', k] = None)"
proof -
  have other: "json_path (payloadSingleValueChart cs vz d) [''options'', k] = None"
    if "k \<notin> {''type'', ''unitPrefix'', ''colorBy'', ''colorScale2'', ''programOptions'',
          ''refreshInterval'', ''maximumPrecision'', ''secondaryVisualization'',
          ''timestampHidden'', ''showSparkLine'', ''publishLabelOptions''}"
    using that by (simp add: payload_options options_lookup)
  show ?thesis
    using other by (simp add: payload_paths Get_defs)
qed

theorem options_always_present_witness:
  "is_timestamp_hidden minimal = None \<and> show_spark_line minimal = None \<and>
   description minimal = None \<and>
   unit_prefix minimal = None \<and> color_by minimal = None \<and> max_delay minimal = None \<and>
   refresh_interval minimal = None \<and> max_precision minimal = None \<and>
   secondary_visualization minimal = None \<and> color_scale minimal = [] \<and>
   viz_options minimal = [] \<and>
   json_path (payloadSingleValueChart entry0 entry0 minimal) [''options'', ''type'']
     = Some (JString ''SingleValue'') \<and>
   json_path (payloadSingleValueChart entry0 entry0 minimal) [''options'', ''timestampHidden'']
     = Some (JBool False) \<and>
   json_path (payloadSingleValueChart entry0 entry0 minimal) [''options'', ''showSparkLine'']
     = Some (JBool False) \<and>
   json_path (payloadSingleValueChart entry0 entry0 minimal) [''description'']
     = Some (JString '''') \<and>
   json_path (payloadSingleValueChart entry0 entry0 minimal) [''options'', ''unitPrefix''] = None \<and>
   json_path (payloadSingleValueChart entry0 entry0 minimal) [''options'', ''colorBy''] = None \<and>
   json_path (payloadSingleValueChart entry0 entry0 minimal) [''options'', ''programOptions'']
     = None \<and>
   json_path (payloadSingleValueChart entry0 entry0 minimal) [''options'', ''refreshInterval'']
     = None \<and>
   json_path (payloadSingleValueChart entry0 entry0 minimal) [''options'', ''maximumPrecision'']
     = None \<and>
   json_path (payloadSingleValueChart entry0 entry0 minimal)
     [''options'', ''secondaryVisualization''] = None \<and>
   json_path (payloadSingleValueChart entry0 entry0 minimal) [''options'', ''colorScale2'']
     = None \<and>
   json_path (payloadSingleValueChart entry0 entry0 minimal) [''options'', ''publishLabelOptions'']
     = None \<and>
   json_path (payloadSingleValueChart entry0 entry0 minimal) [''options'', ''synced''] = None"
  using options_always_present [where cs = entry0 and vz = entry0 and d = minimal
      and k = "''synced''"]
  by (auto simp add: minimal_def unset_def Get_bool_def)

section \<open>Purity and determinism\<close>

text \<open>
  Claim C8: \<^verbatim>\<open>getPayloadSingleValueChart\<close>, run on a state, leaves the resource data as it
  was (no field value changes) and sends no request (the requests of the state are the
  same afterwards); what it returns is \<^verbatim>\<open>json.Marshal\<close> of the payload object of the
  current field values, the value of the function of the resource data alone that create
  and update use; and two runs, on states that agree on every field the configuration
  can set, return the same bytes, whatever the identifiers, the computed fields and the
  requests sent so far are.
\<close>

theorem payload_construction_is_pure:
  "res (snd (run_state (getPayloadSingleValueChart_st marshal cs vz) w)) = res w \<and>
   sent (snd (run_state (getPayloadSingleValueChart_st marshal cs vz) w)) = sent w \<and>
   fst (run_state (getPayloadSingleValueChart_st marshal cs vz) w)
     = marshal (payloadSingleValueChart cs vz (res w)) \<and>
   fst (run_state (getPayloadSingleValueChart_st marshal cs vz) w)
     = getPayloadSingleValueChart marshal cs vz (res w) \<and>
   (name (res w) = name (res w') \<and> program_text (res w) = program_text (res w') \<and>
    description (res w) = description (res w') \<and> unit_prefix (res w) = unit_prefix (res w') \<and>
    color_by (res w) = color_by (res w') \<and> max_delay (res w) = max_delay (res w') \<and>
    refresh_interval (res w) = refresh_interval (res w') \<and>
    max_precision (res w) = max_precision (res w') \<and>
    is_timestamp_hidden (res w) = is_timestamp_hidden (res w') \<and>
    show_spark_line (res w) = show_spark_line (res w') \<and>
    secondary_visualization (res w) = secondary_visualization (res w') \<and>
    color_scale (res w) = color_scale (res w') \<and> viz_options (res w) = viz_options (res w')
    \<longrightarrow> fst (run_state (getPayloadSingleValueChart_st marshal cs vz) w)
          = fst (run_state (getPayloadSingleValueChart_st marshal cs vz) w'))"
  by (simp add: payload_st getPayloadSingleValueChart_def payload_steps options_steps
        getColorScaleOptions_def)

text \<open>
  Two runs: on the scenario before anything was sent, and on the same chart once it is
  managed, with an identifier, a computed \<^verbatim>\<open>url\<close> and a request sent. Both return the same
  text and leave their state as it was; a chart with other field values gives another text.
\<close>

theorem payload_construction_is_pure_witness:
  "rd_id (res world_managed) \<noteq> rd_id (res world0) \<and>
   rd_url (res world_managed) \<noteq> rd_url (res world0) \<and>
   sent world_managed \<noteq> sent world0 \<and>
   fst (run_state (getPayloadSingleValueChart_st marshal_compact entry0 entry0) world0)
     = Inr scenario_text \<and>
   fst (run_state (getPayloadSingleValueChart_st marshal_compact entry0 entry0) world_managed)
     = Inr scenario_text \<and>
   snd (run_state (getPayloadSingleValueChart_st marshal_compact entry0 entry0) world_managed)
     = world_managed \<and>
   fst (run_state (getPayloadSingleValueChart_st marshal_compact entry0 entry0) world_configured)
     = Inr configured_text \<and>
   configured_text \<noteq> scenario_text"
proof -
  note pure = payload_construction_is_pure
    [where marshal = marshal_compact and cs = entry0 and vz = entry0]
  note res_kept = pure [THEN conjunct1]
  note sent_kept = pure [THEN conjunct2, THEN conjunct1]
  note result = pure [THEN conjunct2, THEN conjunct2, THEN conjunct1]
  note same_fields =
    pure [THEN conjunct2, THEN conjunct2, THEN conjunct2, THEN conjunct2, THEN mp]
  have same: "fst (run_state (getPayloadSingleValueChart_st marshal_compact entry0 entry0) world0)
      = fst (run_state (getPayloadSingleValueChart_st marshal_compact entry0 entry0)
               world_managed)"
    by (rule same_fields) (simp add: world0_def world_managed_def managed_def)
  have run0: "fst (run_state (getPayloadSingleValueChart_st marshal_compact entry0 entry0) world0)
      = Inr scenario_text"
    by (simp add: result world0_def marshal_compact_def scenario_compact)
  have unchanged: "snd (run_state (getPayloadSingleValueChart_st marshal_compact entry0 entry0)
      world_managed) = world_managed"
    by (rule world.equality) (simp_all add: res_kept sent_kept)
  have run1: "fst (run_state (getPayloadSingleValueChart_st marshal_compact entry0 entry0)
      world_configured) = Inr configured_text"
    by (simp add: result world_configured_def marshal_compact_def configured_compact)
  have differ: "rd_id (res world_managed) \<noteq> rd_id (res world0) \<and>
      rd_url (res world_managed) \<noteq> rd_url (res world0) \<and>
      sent world_managed \<noteq> sent world0"
    by (simp add: world0_def world_managed_def managed_def scenario_def unset_def)
  from differ same run0 unchanged run1 texts_differ show ?thesis
    by simp
qed

section \<open>Create and update\<close>

lemmas run_defs = singlevaluechartCreate_def singlevaluechartUpdate_def resourceCreate_def
  resourceUpdate_def getPayloadSingleValueChart_def

lemmas env_defs = env_ok_def env_app_url_fails_def env_remote_fails_def env_marshal_fails_def
  marshal_fails_def config0_def world0_def
  marshal0_def buildURL0_def buildAppURL0_def buildAppURL_fails_def http_create0_def
  http_create_fails_def http_update0_def

text \<open>
  A create that fails after the remote call has succeeded leaves the identifier
  assigned: here the remote API answers with the identifier \<^verbatim>\<open>abc\<close>, \<^verbatim>\<open>buildAppURL\<close> fails, the operation
  returns that error, and \<^verbatim>\<open>d.Id()\<close> is \<^verbatim>\<open>abc\<close>.
\<close>

theorem create_fails_with_identifier:
  "rd_id (res world0) = '''' \<and>
   snd (singlevaluechartCreate env_app_url_fails config0 world0)
     = Some (Error ''parse: invalid URL'') \<and>
   rd_id (res (fst (singlevaluechartCreate env_app_url_fails config0 world0))) = ''abc''"
  by (simp add: run_defs env_defs scenario_def unset_def)

text \<open>
  Claim C6, amended: if create fails at the construction of the payload, at the
  construction of the API URL or at the remote create call, the resource data is left as
  it was (no identifier assigned, no field written); if it fails after the remote call
  has succeeded, which is at the construction of the application URL, the resource data
  is the former one with the identifier the remote call returned, and the \<^verbatim>\<open>url\<close> field
  is not written.
\<close>

theorem create_failure:
  assumes "snd (singlevaluechartCreate env config w) = Some e"
  shows "((\<nexists>payload url ident.
             getPayloadSingleValueChart (json_Marshal env) (colorScaleEntry env)
               (vizOptionsEntry env) (res w) = Inr payload \<and>
             buildURL env (APIURL config) (CHART_API_PATH env) [] = Inr url \<and>
             http_create env url (AuthToken config) payload = Inr ident)
          \<longrightarrow> res (fst (singlevaluechartCreate env config w)) = res w) \<and>
         (\<forall>payload url ident.
             getPayloadSingleValueChart (json_Marshal env) (colorScaleEntry env)
               (vizOptionsEntry env) (res w) = Inr payload \<and>
             buildURL env (APIURL config) (CHART_API_PATH env) [] = Inr url \<and>
             http_create env url (AuthToken config) payload = Inr ident
          \<longrightarrow> buildAppURL env (CustomAppURL config) (CHART_APP_PATH env @ ident) = Inl e \<and>
              res (fst (singlevaluechartCreate env config w)) = (res w)\<lparr>rd_id := ident\<rparr>)"
  using assms
  by (auto simp add: singlevaluechartCreate_def resourceCreate_def Let_def
        split: sum.splits option.splits prod.splits)

theorem create_failure_witness:
  "snd (singlevaluechartCreate env_remote_fails config0 world0) = Some (Error ''Bad status 500'') \<and>
   res (fst (singlevaluechartCreate env_remote_fails config0 world0)) = res world0 \<and>
   snd (singlevaluechartCreate env_app_url_fails config0 world0)
     = Some (Error ''parse: invalid URL'') \<and>
   res (fst (singlevaluechartCreate env_app_url_fails config0 world0))
     = (res world0)\<lparr>rd_id := ''abc''\<rparr>"
proof -
  have fails1: "snd (singlevaluechartCreate env_remote_fails config0 world0)
                  = Some (Error ''Bad status 500'')"
    by (simp add: run_defs env_defs)
  have fails2: "snd (singlevaluechartCreate env_app_url_fails config0 world0)
                  = Some (Error ''parse: invalid URL'')"
    by (simp add: run_defs env_defs)
  have "res (fst (singlevaluechartCreate env_remote_fails config0 world0)) = res world0"
    using create_failure [OF fails1] by (simp add: run_defs env_defs)
  moreover
  have "res (fst (singlevaluechartCreate env_app_url_fails config0 world0))
          = (res world0)\<lparr>rd_id := ''abc''\<rparr>"
    using create_failure [OF fails2] by (simp add: getPayloadSingleValueChart_def env_defs)
  ultimately show ?thesis
    using fails1 fails2 by simp
qed

text \<open>
  Claim C7: update rebuilds the whole payload from the current field values and submits
  it, as create does. Whenever \<^verbatim>\<open>json.Marshal\<close> turns the payload object of the current
  resource data into bytes, the one request an update sends (once its URL is built)
  carries exactly these bytes, and so does the one request of a create on the same
  resource data; when it fails, neither sends anything. The object is the full one, not
  a part of it: it holds the current value of the name, the description and the program
  text, the type and both booleans, and the current value of every other field that is
  set (to a value other than the zero value), the time fields in milliseconds.
\<close>

theorem update_submits_the_payload_of_create:
  "(json_Marshal env (payload_of env w) = Inr payload \<longrightarrow>
      (buildURL env (APIURL config) (CHART_API_PATH env @ ''/'' @ rd_id (res w)) [] = Inr u \<longrightarrow>
         sent (fst (singlevaluechartUpdate env config w)) = sent w @
           [\<lparr>req_op = OpUpdate, req_url = u, req_token = AuthToken config,
             req_payload = payload\<rparr>]) \<and>
      (buildURL env (APIURL config) (CHART_API_PATH env) [] = Inr u' \<longrightarrow>
         sent (fst (singlevaluechartCreate env config w)) = sent w @
           [\<lparr>req_op = OpCreate, req_url = u', req_token = AuthToken config,
             req_payload = payload\<rparr>])) \<and>
   (json_Marshal env (payload_of env w) = Inl err \<longrightarrow>
      sent (fst (singlevaluechartUpdate env config w)) = sent w \<and>
      sent (fst (singlevaluechartCreate env config w)) = sent w) \<and>
   json_path (payload_of env w) [''name''] = Some (JString (Get_string (name (res w)))) \<and>
   json_path (payload_of env w) [''description'']
     = Some (JString (Get_string (description (res w)))) \<and>
   json_path (payload_of env w) [''programText'']
     = Some (JString (Get_string (program_text (res w)))) \<and>
   json_path (payload_of env w) [''options'', ''type''] = Some (JString ''SingleValue'') \<and>
   json_path (payload_of env w) [''options'', ''timestampHidden'']
     = Some (JBool (Get_bool (is_timestamp_hidden (res w)))) \<and>
   json_path (payload_of env w) [''options'', ''showSparkLine'']
     = Some (JBool (Get_bool (show_spark_line (res w)))) \<and>
   (unit_prefix (res w) = Some up \<and> up \<noteq> '''' \<longrightarrow>
      json_path (payload_of env w) [''options'', ''unitPrefix''] = Some (JString up)) \<and>
   (color_by (res w) = Some cb \<and> cb \<noteq> '''' \<and> cb \<noteq> ''Scale'' \<longrightarrow>
      json_path (payload_of env w) [''options'', ''colorBy''] = Some (JString cb)) \<and>
   (color_by (res w) = Some ''Scale'' \<and> color_scale (res w) \<noteq> [] \<longrightarrow>
      json_path (payload_of env w) [''options'', ''colorBy''] = Some (JString ''Scale'') \<and>
      json_path (payload_of env w) [''options'', ''colorScale2'']
        = Some (JArray (map (colorScaleEntry env) (color_scale (res w))))) \<and>
   (max_delay (res w) = Some md \<and> md \<noteq> 0 \<longrightarrow>
      json_path (payload_of env w) [''options'', ''programOptions'', ''maxDelay'']
        = Some (JInt (md * 1000))) \<and>
   (refresh_interval (res w) = Some ri \<and> ri \<noteq> 0 \<longrightarrow>
      json_path (payload_of env w) [''options'', ''refreshInterval'']
        = Some (JInt (ri * 1000))) \<and>
   (max_precision (res w) = Some mp \<and> mp \<noteq> 0 \<longrightarrow>
      json_path (payload_of env w) [''options'', ''maximumPrecision''] = Some (JInt mp)) \<and>
   (secondary_visualization (res w) = Some sv \<and> sv \<noteq> '''' \<longrightarrow>
      json_path (payload_of env w) [''options'', ''secondaryVisualization'']
        = Some (JString sv)) \<and>
   (viz_options (res w) \<noteq> [] \<longrightarrow>
      json_path (payload_of env w) [''options'', ''publishLabelOptions'']
        = Some (JArray (map (vizOptionsEntry env) (viz_options (res w)))))"
proof -
  have requests:
    "(json_Marshal env (payload_of env w) = Inr payload \<longrightarrow>
        (buildURL env (APIURL config) (CHART_API_PATH env @ ''/'' @ rd_id (res w)) [] = Inr u
           \<longrightarrow> sent (fst (singlevaluechartUpdate env config w)) = sent w @
             [\<lparr>req_op = OpUpdate, req_url = u, req_token = AuthToken config,
               req_payload = payload\<rparr>]) \<and>
        (buildURL env (APIURL config) (CHART_API_PATH env) [] = Inr u' \<longrightarrow>
           sent (fst (singlevaluechartCreate env config w)) = sent w @
             [\<lparr>req_op = OpCreate, req_url = u', req_token = AuthToken config,
               req_payload = payload\<rparr>])) \<and>
     (json_Marshal env (payload_of env w) = Inl err \<longrightarrow>
        sent (fst (singlevaluechartUpdate env config w)) = sent w \<and>
        sent (fst (singlevaluechartCreate env config w)) = sent w)"
    by (auto simp add: singlevaluechartCreate_def singlevaluechartUpdate_def resourceCreate_def
          resourceUpdate_def getPayloadSingleValueChart_def Let_def
          split: sum.splits option.splits prod.splits)
  have fields:
    "json_path (payload_of env w) [''name''] = Some (JString (Get_string (name (res w)))) \<and>
     json_path (payload_of env w) [''description'']
       = Some (JString (Get_string (description (res w)))) \<and>
     json_path (payload_of env w) [''programText'']
       = Some (JString (Get_string (program_text (res w)))) \<and>
     json_path (payload_of env w) [''options'', ''type''] = Some (JString ''SingleValue'') \<and>
     json_path (payload_of env w) [''options'', ''timestampHidden'']
       = Some (JBool (Get_bool (is_timestamp_hidden (res w)))) \<and>
     json_path (payload_of env w) [''options'', ''showSparkLine'']
       = Some (JBool (Get_bool (show_spark_line (res w)))) \<and>
     (unit_prefix (res w) = Some up \<and> up \<noteq> '''' \<longrightarrow>
        json_path (payload_of env w) [''options'', ''unitPrefix''] = Some (JString up)) \<and>
     (color_by (res w) = Some cb \<and> cb \<noteq> '''' \<and> cb \<noteq> ''Scale'' \<longrightarrow>
        json_path (payload_of env w) [''options'', ''colorBy''] = Some (JString cb)) \<and>
     (color_by (res w) = Some ''Scale'' \<and> color_scale (res w) \<noteq> [] \<longrightarrow>
        json_path (payload_of env w) [''options'', ''colorBy''] = Some (JString ''Scale'') \<and>
        json_path (payload_of env w) [''options'', ''colorScale2'']
          = Some (JArray (map (colorScaleEntry env) (color_scale (res w))))) \<and>
     (max_delay (res w) = Some md \<and> md \<noteq> 0 \<longrightarrow>
        json_path (payload_of env w) [''options'', ''programOptions'', ''maxDelay'']
          = Some (JInt (md * 1000))) \<and>
     (refresh_interval (res w) = Some ri \<and> ri \<noteq> 0 \<longrightarrow>
        json_path (payload_of env w) [''options'', ''refreshInterval'']
          = Some (JInt (ri * 1000))) \<and>
     (max_precision (res w) = Some mp \<and> mp \<noteq> 0 \<longrightarrow>
        json_path (payload_of env w) [''options'', ''maximumPrecision''] = Some (JInt mp)) \<and>
     (secondary_visualization (res w) = Some sv \<and> sv \<noteq> '''' \<longrightarrow>
        json_path (payload_of env w) [''options'', ''secondaryVisualization'']
          = Some (JString sv)) \<and>
     (viz_options (res w) \<noteq> [] \<longrightarrow>
        json_path (payload_of env w) [''options'', ''publishLabelOptions'']
          = Some (JArray (map (vizOptionsEntry env) (viz_options (res w)))))"
    by (simp add: payload_paths lookup_Cons lookup_Nil Get_defs)
  show ?thesis
    by (rule conjI [OF requests [THEN conjunct1] conjI [OF requests [THEN conjunct2] fields]])
qed

text \<open>
  An update of the managed chart that has every field set, after the request of its
  creation: the second request carries the text of the full payload, and a create on the
  same state would carry the same text. With a chart coloured by dimension the text is
  another one, and when the payload cannot be serialised nothing is sent.
\<close>

theorem update_submits_the_payload_of_create_witness:
  "(json_Marshal env_compact (payload_of env_compact world_configured) = Inr configured_text \<and>
    sent (fst (singlevaluechartUpdate env_compact config0 world_configured)) =
      [request0,
       \<lparr>req_op = OpUpdate, req_url = ''https://api/v2/chart/abc'', req_token = ''token'',
         req_payload = configured_text\<rparr>] \<and>
    sent (fst (singlevaluechartCreate env_compact config0 world_configured)) =
      [request0,
       \<lparr>req_op = OpCreate, req_url = ''https://api/v2/chart'', req_token = ''token'',
         req_payload = configured_text\<rparr>] \<and>
    json_path (payload_of env_compact world_configured) [''description'']
      = Some (JString ''CPU load'') \<and>
    json_path (payload_of env_compact world_configured) [''options'', ''unitPrefix'']
      = Some (JString ''Binary'') \<and>
    json_path (payload_of env_compact world_configured) [''options'', ''colorScale2'']
      = Some (JArray [JObject []]) \<and>
    json_path (payload_of env_compact world_configured)
      [''options'', ''programOptions'', ''maxDelay''] = Some (JInt 5000) \<and>
    json_path (payload_of env_compact world_configured) [''options'', ''refreshInterval'']
      = Some (JInt 60000) \<and>
    json_path (payload_of env_compact world_configured) [''options'', ''maximumPrecision'']
      = Some (JInt 3) \<and>
    json_path (payload_of env_compact world_configured) [''options'', ''secondaryVisualization'']
      = Some (JString ''Radial'') \<and>
    json_path (payload_of env_compact world_configured) [''options'', ''publishLabelOptions'']
      = Some (JArray [JObject []])) \<and>
   (json_Marshal env_compact (payload_of env_compact world_by_dimension)
      = Inr by_dimension_text \<and>
    sent (fst (singlevaluechartUpdate env_compact config0 world_by_dimension)) =
      [request0,
       \<lparr>req_op = OpUpdate, req_url = ''https://api/v2/chart/abc'', req_token = ''token'',
         req_payload = by_dimension_text\<rparr>] \<and>
    json_path (payload_of env_compact world_by_dimension) [''options'', ''colorBy'']
      = Some (JString ''Dimension'')) \<and>
   (json_Marshal env_marshal_fails (payload_of env_marshal_fails world_configured)
      = Inl (Error ''json: unsupported value'') \<and>
    sent (fst (singlevaluechartUpdate env_marshal_fails config0 world_configured)) = [request0] \<and>
    sent (fst (singlevaluechartCreate env_marshal_fails config0 world_configured)) = [request0])"
proof -
  have bytes1: "json_Marshal env_compact (payload_of env_compact world_configured)
                  = Inr configured_text"
    by (simp add: env_compact_def env_ok_def marshal_compact_def world_configured_def
          configured_compact)
  have bytes2: "json_Marshal env_compact (payload_of env_compact world_by_dimension)
                  = Inr by_dimension_text"
    by (simp add: env_compact_def env_ok_def marshal_compact_def world_by_dimension_def
          by_dimension_compact)
  have fails: "json_Marshal env_marshal_fails (payload_of env_marshal_fails world_configured)
                 = Inl (Error ''json: unsupported value'')"
    by (simp add: env_marshal_fails_def env_ok_def marshal_fails_def)
  have part1:
    "sent (fst (singlevaluechartUpdate env_compact config0 world_configured)) =
       [request0,
        \<lparr>req_op = OpUpdate, req_url = ''https://api/v2/chart/abc'', req_token = ''token'',
          req_payload = configured_text\<rparr>] \<and>
     sent (fst (singlevaluechartCreate env_compact config0 world_configured)) =
       [request0,
        \<lparr>req_op = OpCreate, req_url = ''https://api/v2/chart'', req_token = ''token'',
          req_payload = configured_text\<rparr>] \<and>
     json_path (payload_of env_compact world_configured) [''description'']
       = Some (JString ''CPU load'') \<and>
     json_path (payload_of env_compact world_configured) [''options'', ''unitPrefix'']
       = Some (JString ''Binary'') \<and>
     json_path (payload_of env_compact world_configured) [''options'', ''colorScale2'']
       = Some (JArray [JObject []]) \<and>
     json_path (payload_of env_compact world_configured)
       [''options'', ''programOptions'', ''maxDelay''] = Some (JInt 5000) \<and>
     json_path (payload_of env_compact world_configured) [''options'', ''refreshInterval'']
       = Some (JInt 60000) \<and>
     json_path (payload_of env_compact world_configured) [''options'', ''maximumPrecision'']
       = Some (JInt 3) \<and>
     json_path (payload_of env_compact world_configured) [''options'', ''secondaryVisualization'']
       = Some (JString ''Radial'') \<and>
     json_path (payload_of env_compact world_configured) [''options'', ''publishLabelOptions'']
       = Some (JArray [JObject []])"
    using bytes1 update_submits_the_payload_of_create
      [where env = env_compact and w = world_configured and config = config0
         and payload = configured_text and u = "''https://api/v2/chart/abc''"
         and u' = "''https://api/v2/chart''" and up = "''Binary''" and md = 5 and ri = 60
         and mp = 3 and sv = "''Radial''"]
    by (simp add: env_compact_def env_ok_def config0_def buildURL0_def world_configured_def
          configured_def entry0_def Get_string_def)
  have part2:
    "sent (fst (singlevaluechartUpdate env_compact config0 world_by_dimension)) =
       [request0,
        \<lparr>req_op = OpUpdate, req_url = ''https://api/v2/chart/abc'', req_token = ''token'',
          req_payload = by_dimension_text\<rparr>] \<and>
     json_path (payload_of env_compact world_by_dimension) [''options'', ''colorBy'']
       = Some (JString ''Dimension'')"
    using bytes2 update_submits_the_payload_of_create
      [where env = env_compact and w = world_by_dimension and config = config0
         and payload = by_dimension_text and u = "''https://api/v2/chart/abc''"
         and cb = "''Dimension''"]
    by (simp add: env_compact_def env_ok_def config0_def buildURL0_def world_by_dimension_def
          by_dimension_def minimal_def unset_def Get_string_def)
  have part3:
    "sent (fst (singlevaluechartUpdate env_marshal_fails config0 world_configured)) = [request0] \<and>
     sent (fst (singlevaluechartCreate env_marshal_fails config0 world_configured)) = [request0]"
    using fails update_submits_the_payload_of_create
      [where env = env_marshal_fails and w = world_configured and config = config0
         and err = "Error ''json: unsupported value''"]
    by (simp add: world_configured_def)
  from bytes1 bytes2 fails part1 part2 part3 show ?thesis by simp
qed

end
